theory Spec2Isabelle
  imports Complex_Main "HOL-Library.Word"
begin

unbundle bit_operations_syntax

section \<open>The Eddystone ad structure decoder of PyBTSteward\<close>

text \<open>
  A shallow embedding of \<^verbatim>\<open>decode_eddystone\<close> (PyBTSteward/decode_eddystone.py).
  The module runs under Python 3 and \<^verbatim>\<open>ad_struct\<close> is a \<^verbatim>\<open>bytes\<close> object: indexing and
  iterating it yield ints in 0..255, slicing yields bytes. Every exception the function
  lets escape is a value of \<open>error\<close>. Logging has no effect on the result and is left
  out; the \<^verbatim>\<open>state\<close> argument is never read, and \<^verbatim>\<open>config\<close> is only read for the log level.
\<close>

subsection \<open>Python values\<close>

type_synonym byte = "8 word"

datatype error = IndexError | StructError | TypeError

text \<open>
  The values stored in the returned dict. The floats of this function are quotients
  \<^verbatim>\<open>n / 1000.00\<close>, \<^verbatim>\<open>n / 256.00\<close> and \<^verbatim>\<open>n / 10.0\<close> of an int below \<open>2 ^ 32\<close>: Python
  converts the int exactly and returns the double nearest to the exact quotient.
  \<open>PFloat q\<close> stands for the double nearest to the rational \<open>q\<close>; the rounding itself
  is not modelled.
\<close>

datatype pyval = PNone | PInt int | PStr string | PFloat rat

type_synonym pydict = "string \<rightharpoonup> pyval"

text \<open>\<^verbatim>\<open>xs[i:j]\<close> for \<open>0 \<le> i\<close>, \<open>0 \<le> j\<close>: out-of-range bounds are clamped, never an error.\<close>

definition slice :: "'a list \<Rightarrow> nat \<Rightarrow> nat \<Rightarrow> 'a list" where
  "slice xs i j = take (j - i) (drop i xs)"

text \<open>\<^verbatim>\<open>xs[i]\<close> for \<open>0 \<le> i\<close>: IndexError outside the sequence.\<close>

definition index :: "'a list \<Rightarrow> nat \<Rightarrow> error + 'a" where
  "index xs i = (if i < length xs then Inr (xs ! i) else Inl IndexError)"

subsection \<open>struct.unpack\<close>

text \<open>
  \<^verbatim>\<open>struct.unpack(fmt, buf)\<close> raises \<^verbatim>\<open>struct.error\<close> unless \<^verbatim>\<open>buf\<close> has exactly the size of
  the format. With the byte-order prefixes \<^verbatim>\<open><\<close> and \<^verbatim>\<open>>\<close> there is no padding.
\<close>

definition le_u16 :: "byte \<Rightarrow> byte \<Rightarrow> nat" where
  "le_u16 b0 b1 = unat b0 + 256 * unat b1"

definition be_u16 :: "byte \<Rightarrow> byte \<Rightarrow> nat" where
  "be_u16 b0 b1 = 256 * unat b0 + unat b1"

definition be_i16 :: "byte \<Rightarrow> byte \<Rightarrow> int" where
  "be_i16 b0 b1 = sint (word_of_nat (be_u16 b0 b1) :: 16 word)"

definition be_u32 :: "byte \<Rightarrow> byte \<Rightarrow> byte \<Rightarrow> byte \<Rightarrow> nat" where
  "be_u32 b0 b1 b2 b3 = ((unat b0 * 256 + unat b1) * 256 + unat b2) * 256 + unat b3"

record EddystoneCommon =
  adstruct_bytes :: nat
  sd_length :: nat
  sd_flags_type :: nat
  sd_flags_data :: nat
  uuid_list_len :: nat
  uuid_dt_val :: nat
  eddystone_uuid :: nat
  eddy_len :: nat
  sd_type :: nat
  eddy_uuid_2 :: nat
  sub_type :: nat

text \<open>Format \<^verbatim>\<open><BBBBBBHBBHB\<close>: 13 bytes, the two H fields little-endian.\<close>

definition unpack_common :: "byte list \<Rightarrow> error + EddystoneCommon" where
  "unpack_common buf =
     (if length buf = 13 then
        Inr \<lparr>adstruct_bytes = unat (buf ! 0), sd_length = unat (buf ! 1),
             sd_flags_type = unat (buf ! 2), sd_flags_data = unat (buf ! 3),
             uuid_list_len = unat (buf ! 4), uuid_dt_val = unat (buf ! 5),
             eddystone_uuid = le_u16 (buf ! 6) (buf ! 7),
             eddy_len = unat (buf ! 8), sd_type = unat (buf ! 9),
             eddy_uuid_2 = le_u16 (buf ! 10) (buf ! 11), sub_type = unat (buf ! 12)\<rparr>
      else Inl StructError)"

text \<open>Format \<^verbatim>\<open>>b10s6s\<close>: 17 bytes, giving (rssi_ref, namespace, instance).\<close>

definition unpack_uid :: "byte list \<Rightarrow> error + (int \<times> byte list \<times> byte list)" where
  "unpack_uid buf =
     (if length buf = 17 then Inr (sint (buf ! 0), slice buf 1 11, slice buf 11 17)
      else Inl StructError)"

text \<open>Format \<^verbatim>\<open>>bB\<close>: 2 bytes, giving (rssi_ref, url_scheme).\<close>

definition unpack_url :: "byte list \<Rightarrow> error + (int \<times> nat)" where
  "unpack_url buf =
     (if length buf = 2 then Inr (sint (buf ! 0), unat (buf ! 1)) else Inl StructError)"

text \<open>
  Format \<^verbatim>\<open>>BHhLL\<close>: 13 bytes, giving (tlm_version, vbatt, temp, adv_cnt, sec_cnt),
  all big-endian, temp signed.
\<close>

definition unpack_tlm :: "byte list \<Rightarrow> error + (nat \<times> nat \<times> int \<times> nat \<times> nat)" where
  "unpack_tlm buf =
     (if length buf = 13 then
        Inr (unat (buf ! 0), be_u16 (buf ! 1) (buf ! 2), be_i16 (buf ! 3) (buf ! 4),
             be_u32 (buf ! 5) (buf ! 6) (buf ! 7) (buf ! 8),
             be_u32 (buf ! 9) (buf ! 10) (buf ! 11) (buf ! 12))
      else Inl StructError)"

subsection \<open>Formatting\<close>

text \<open>\<^verbatim>\<open>'{:02X}'.format(i)\<close> for an int \<open>i\<close> in 0..255: two upper-case hex digits.\<close>

definition hex_digit :: "nat \<Rightarrow> char" where
  "hex_digit d = ''0123456789ABCDEF'' ! d"

definition format_02X :: "byte \<Rightarrow> string" where
  "format_02X i = [hex_digit (unat i div 16), hex_digit (unat i mod 16)]"

definition hex_join :: "byte list \<Rightarrow> string" where
  "hex_join bs = concat (map format_02X bs)"

subsection \<open>The URL scan (lines 140-153)\<close>

text \<open>
  \<^verbatim>\<open>ord(c)\<close>: the loop variable \<open>c\<close> is an element of a bytes object, hence an int, and
  \<^verbatim>\<open>ord\<close> of an int raises TypeError.
\<close>

definition ord_py :: "byte \<Rightarrow> error + nat" where
  "ord_py c = Inl TypeError"

definition expansions :: "string list" where
  "expansions = [''.com'', ''.org'', ''.edu'', ''.net'', ''.info'', ''.biz'', ''.gov'']"

text \<open>
  The loop body after \<^verbatim>\<open>c_code = ord(c)\<close>: two consecutive \<^verbatim>\<open>if\<close> statements, the second
  not an \<^verbatim>\<open>else\<close> of the first. Where \<^verbatim>\<open>ord(c)\<close> has returned, \<open>c\<close> is the one-character
  string with that code, which \<^verbatim>\<open>ret['url'] += c\<close> appends.
\<close>

definition is_expansion_code :: "nat \<Rightarrow> bool" where
  "is_expansion_code c_code = (c_code < 14)"

definition is_graphic :: "nat \<Rightarrow> bool" where
  "is_graphic c_code = (c_code > 0x20 \<and> c_code < 0x7F)"

definition url_expand :: "nat \<Rightarrow> string \<Rightarrow> string" where
  "url_expand c_code url =
     (if is_expansion_code c_code then
        (let url1 = url @ expansions ! (if c_code < 7 then c_code else c_code - 7)
         in if c_code < 7 then url1 @ ''/'' else url1)
      else url)"

definition url_literal :: "nat \<Rightarrow> string \<Rightarrow> string" where
  "url_literal c_code url = (if is_graphic c_code then url @ [char_of c_code] else url)"

definition url_step :: "nat \<Rightarrow> string \<Rightarrow> string" where
  "url_step c_code url = url_literal c_code (url_expand c_code url)"

fun url_scan :: "string \<Rightarrow> byte list \<Rightarrow> error + string" where
  "url_scan url [] = Inr url"
| "url_scan url (c # cs) =
     (case ord_py c of Inl e \<Rightarrow> Inl e | Inr c_code \<Rightarrow> url_scan (url_step c_code url) cs)"

definition schemes :: "string list" where
  "schemes = [''http://www.'', ''https://www.'', ''http://'', ''https://'']"

subsection \<open>The three sub type branches\<close>

text \<open>Lines 104-122. Each branch takes the dict built so far and returns it updated.\<close>

definition uid_branch :: "byte list \<Rightarrow> EddystoneCommon \<Rightarrow> pydict \<Rightarrow> error + pydict" where
  "uid_branch ad_struct ec ret =
     (if sub_type ec = 0x00 \<and> (eddy_len ec = 0x15 \<or> eddy_len ec = 0x17) then
        (case unpack_uid (slice ad_struct 13 30) of
           Inl e \<Rightarrow> Inl e
         | Inr (rssi_ref, namespace, inst) \<Rightarrow>
             Inr (ret(''sub_type'' \<mapsto> PStr ''uid'',
                      ''namespace'' \<mapsto> PStr (hex_join namespace),
                      ''instance'' \<mapsto> PStr (hex_join inst),
                      ''rssi_ref'' \<mapsto> PInt rssi_ref)))
      else Inr ret)"

text \<open>Lines 128-153. \<open>nbytes\<close> is the source's local \<^verbatim>\<open>adstruct_bytes\<close>.\<close>

definition url_branch :: "byte list \<Rightarrow> nat \<Rightarrow> EddystoneCommon \<Rightarrow> pydict \<Rightarrow> error + pydict" where
  "url_branch ad_struct nbytes ec ret =
     (if sub_type ec = 0x10 then
        (case unpack_url (slice ad_struct 13 20) of
           Inl e \<Rightarrow> Inl e
         | Inr (rssi_ref, url_scheme) \<Rightarrow>
             (case index ad_struct (length ad_struct) of
                Inl e \<Rightarrow> Inl e
              | Inr fudge \<Rightarrow>
                  (case url_scan (schemes ! (url_scheme AND 0x03)) (slice ad_struct 7 nbytes) of
                     Inl e \<Rightarrow> Inl e
                   | Inr url \<Rightarrow>
                       Inr (ret(''sub_type'' \<mapsto> PStr ''url'',
                                ''rssi_ref'' \<mapsto> PInt rssi_ref,
                                ''rssi_fudge'' \<mapsto> PInt (uint fudge),
                                ''url'' \<mapsto> PStr url)))))
      else Inr ret)"

text \<open>Lines 155-168.\<close>

definition tlm_metrics :: "nat \<Rightarrow> int \<Rightarrow> nat \<Rightarrow> nat \<Rightarrow> pydict \<Rightarrow> pydict" where
  "tlm_metrics vbatt temp adv_cnt sec_cnt ret =
     ret(''vbatt'' \<mapsto> PFloat (of_nat vbatt / 1000),
         ''temp'' \<mapsto> PFloat (of_int temp / 256),
         ''adv_cnt'' \<mapsto> PInt (int adv_cnt),
         ''sec_cnt'' \<mapsto> PFloat (of_nat sec_cnt / 10))"

definition tlm_branch :: "byte list \<Rightarrow> EddystoneCommon \<Rightarrow> pydict \<Rightarrow> error + pydict" where
  "tlm_branch ad_struct ec ret =
     (if sub_type ec = 0x20 \<and> eddy_len ec = 0x11 then
        (case unpack_tlm (slice ad_struct 13 26) of
           Inl e \<Rightarrow> Inl e
         | Inr (tlm_version, vbatt, temp, adv_cnt, sec_cnt) \<Rightarrow>
             (let ret1 = ret(''sub_type'' \<mapsto> PStr ''tlm'',
                             ''tlm_version'' \<mapsto> PInt (int tlm_version))
              in if tlm_version = 0x00
                 then Inr (tlm_metrics vbatt temp adv_cnt sec_cnt ret1)
                 else Inr ret1))
      else Inr ret)"

subsection \<open>decode_eddystone\<close>

text \<open>
  Lines 52-62: \<^verbatim>\<open>int(ad_struct[0]) + 1\<close>. On an empty buffer the index raises IndexError,
  which the \<^verbatim>\<open>except ValueError\<close> clause does not catch; on an int, \<^verbatim>\<open>int\<close> never raises.
\<close>

definition read_length :: "byte list \<Rightarrow> error + nat" where
  "read_length ad_struct =
     (case index ad_struct 0 of Inl e \<Rightarrow> Inl e | Inr b \<Rightarrow> Inr (unat b + 1))"

text \<open>Line 64, the dict every path starts from.\<close>

definition unknown :: "nat \<Rightarrow> pydict" where
  "unknown nbytes = [''adstruct_bytes'' \<mapsto> PInt (int nbytes), ''type'' \<mapsto> PNone]"

text \<open>Lines 97-168: the header test and the three consecutive sub type tests.\<close>

definition decode_common :: "byte list \<Rightarrow> nat \<Rightarrow> EddystoneCommon \<Rightarrow> pydict \<Rightarrow> error + pydict" where
  "decode_common ad_struct nbytes ec ret =
     (if eddystone_uuid ec = 0xFEAA \<and> sd_type ec = 0x16 then
        (case uid_branch ad_struct ec (ret(''type'' \<mapsto> PStr ''eddystone'')) of
           Inl e \<Rightarrow> Inl e
         | Inr ret1 \<Rightarrow>
             (case url_branch ad_struct nbytes ec ret1 of
                Inl e \<Rightarrow> Inl e
              | Inr ret2 \<Rightarrow> tlm_branch ad_struct ec ret2))
      else Inr ret)"

definition decode_eddystone :: "byte list \<Rightarrow> error + pydict" where
  "decode_eddystone ad_struct =
     (case read_length ad_struct of
        Inl e \<Rightarrow> Inl e
      | Inr nbytes \<Rightarrow>
          (if nbytes \<ge> 5 \<and> nbytes \<le> length ad_struct then
             (case unpack_common (slice ad_struct 0 13) of
                Inl e \<Rightarrow> Inl e
              | Inr ec \<Rightarrow> decode_common ad_struct nbytes ec (unknown nbytes))
           else Inr (unknown nbytes)))"

subsection \<open>Concrete frames\<close>

text \<open>An Eddystone header with a sub type (0x30) that none of the three branches takes.\<close>

definition eddystone_header_only :: "byte list" where
  "eddystone_header_only =
     [0x0C, 0x02, 0x01, 0x06, 0x03, 0x03, 0xAA, 0xFE, 0x03, 0x16, 0xAA, 0xFE, 0x30]"

text \<open>The same header with 0x16 at index 8 instead of index 9.\<close>

definition sd_type_at_8 :: "byte list" where
  "sd_type_at_8 = [0x0C, 0x02, 0x01, 0x06, 0x03, 0x03, 0xAA, 0xFE, 0x16, 0x03, 0xAA, 0xFE, 0x30]"

text \<open>A UID frame of 30 bytes; index 8 (eddy_len) is set by the caller.\<close>

definition uid_frame :: "byte list" where
  "uid_frame =
     [0x1D, 0x02, 0x01, 0x06, 0x03, 0x03, 0xAA, 0xFE, 0x00, 0x16, 0xAA, 0xFE, 0x00,
      0xEC, 0x01, 0x02, 0x03, 0x04, 0x05, 0x06, 0x07, 0x08, 0x09, 0x0A,
      0x0B, 0x0C, 0x0D, 0x0E, 0x0F, 0x10]"

text \<open>
  A TLM frame of 26 bytes with version \<open>v\<close>, vbatt 3300, temp 2048, adv_cnt 10 and
  sec_cnt 100.
\<close>

definition tlm_frame :: "byte \<Rightarrow> byte list" where
  "tlm_frame v =
     [0x19, 0x02, 0x01, 0x06, 0x03, 0x03, 0xAA, 0xFE, 0x11, 0x16, 0xAA, 0xFE, 0x20,
      v, 0x0C, 0xE4, 0x08, 0x00, 0x00, 0x00, 0x00, 0x0A, 0x00, 0x00, 0x00, 0x64]"

text \<open>URL frames: 15 bytes (header, rssi_ref, url_scheme), and 23 bytes carrying "example" and 0x00.\<close>

definition url_frame_15 :: "byte list" where
  "url_frame_15 =
     [0x0E, 0x02, 0x01, 0x06, 0x03, 0x03, 0xAA, 0xFE, 0x06, 0x16, 0xAA, 0xFE, 0x10, 0xEC, 0x00]"

definition url_frame_example :: "byte list" where
  "url_frame_example =
     [0x16, 0x02, 0x01, 0x06, 0x03, 0x03, 0xAA, 0xFE, 0x0E, 0x16, 0xAA, 0xFE, 0x10, 0xEC, 0x00,
      0x65, 0x78, 0x61, 0x6D, 0x70, 0x6C, 0x65, 0x00]"

definition url_frame_fudge :: "byte list" where
  "url_frame_fudge =
     [0x0E, 0x02, 0x01, 0x06, 0x03, 0x03, 0xAA, 0xFE, 0x06, 0x16, 0xAA, 0xFE, 0x10, 0xEC, 0x02]"

definition url_frame_example_com :: "byte list" where
  "url_frame_example_com =
     [0x16, 0x02, 0x01, 0x06, 0x03, 0x03, 0xAA, 0xFE, 0x0E, 0x16, 0xAA, 0xFE, 0x10, 0xEB, 0x00,
      0x65, 0x78, 0x61, 0x6D, 0x70, 0x6C, 0x65, 0x00]"

section \<open>Auxiliary facts\<close>

lemmas decode_defs =
  decode_eddystone_def read_length_def index_def slice_def unpack_common_def
  decode_common_def uid_branch_def url_branch_def tlm_branch_def le_u16_def unknown_def
  unpack_uid_def unpack_url_def unpack_tlm_def

lemma index_length: "index xs (length xs) = Inl IndexError"
  by (simp add: index_def)

lemma read_length_eq:
  "read_length ad = (if ad = [] then Inl IndexError else Inr (unat (ad ! 0) + 1))"
  by (simp add: read_length_def index_def)

lemma length_slice: "length (slice xs i j) = min (j - i) (length xs - i)"
  by (simp add: slice_def)

lemma nth_slice: "i + k < length xs \<Longrightarrow> k < j - i \<Longrightarrow> slice xs i j ! k = xs ! (i + k)"
  by (simp add: slice_def)

text \<open>The signed big-endian read is the two's complement value of the two bytes joined.\<close>

lemma be_i16_word_cat: "be_i16 a b = sint (word_cat a b :: 16 word)"
proof -
  have "(word_cat a b :: 16 word) = push_bit 8 (ucast a) + ucast b"
    by (simp add: word_cat_eq)
  also have "\<dots> = word_of_nat (256 * unat a + unat b)"
    by (simp add: push_bit_eq_mult)
  finally show ?thesis
    by (simp add: be_i16_def be_u16_def)
qed

lemma be_i16_examples:
  "be_i16 0x08 0x00 = 2048" "be_i16 0xFF 0x00 = - 256" "be_i16 0x80 0x00 = - 32768"
  by (simp_all add: be_i16_def be_u16_def)

text \<open>The little-endian field is 0xFEAA exactly when the bytes are AA FE, in this order.\<close>

lemma le_u16_FEAA: "le_u16 a b = 0xFEAA \<longleftrightarrow> unat a = 0xAA \<and> unat b = 0xFE"
proof
  assume eq: "le_u16 a b = 0xFEAA"
  have small: "unat a < 256"
    using unsigned_less [of a, where 'a = nat] by simp
  then have "(unat a + 256 * unat b) div 256 = unat b"
    and "(unat a + 256 * unat b) mod 256 = unat a"
    by simp_all
  with eq show "unat a = 0xAA \<and> unat b = 0xFE"
    by (simp add: le_u16_def)
next
  assume "unat a = 0xAA \<and> unat b = 0xFE"
  then show "le_u16 a b = 0xFEAA"
    by (simp add: le_u16_def)
qed

lemma hex_join_example:
  "hex_join [0x01, 0x02, 0x03, 0x04, 0x05, 0x06, 0x07, 0x08, 0x09, 0x0A] = ''0102030405060708090A''"
  "hex_join [0x0B, 0x0C, 0x0D, 0x0E, 0x0F, 0x10] = ''0B0C0D0E0F10''"
  by (simp_all add: hex_join_def format_02X_def hex_digit_def)

text \<open>With 13 bytes or more in the buffer the header unpack succeeds, field by field.\<close>

lemma unpack_common_header:
  assumes "13 \<le> length ad"
  shows "unpack_common (slice ad 0 13) =
     Inr \<lparr>adstruct_bytes = unat (ad ! 0), sd_length = unat (ad ! 1),
          sd_flags_type = unat (ad ! 2), sd_flags_data = unat (ad ! 3),
          uuid_list_len = unat (ad ! 4), uuid_dt_val = unat (ad ! 5),
          eddystone_uuid = le_u16 (ad ! 6) (ad ! 7),
          eddy_len = unat (ad ! 8), sd_type = unat (ad ! 9),
          eddy_uuid_2 = le_u16 (ad ! 10) (ad ! 11), sub_type = unat (ad ! 12)\<rparr>"
  using assms by (simp add: unpack_common_def slice_def)

lemma unpack_common_short:
  "length ad < 13 \<Longrightarrow> unpack_common (slice ad 0 13) = Inl StructError"
  by (simp add: unpack_common_def slice_def)

text \<open>
  The URL branch never returns a dict of its own: the two-byte unpack of
  \<^verbatim>\<open>ad_struct[13:20]\<close> fails unless that slice has two bytes, and the read at index
  \<^verbatim>\<open>len(ad_struct)\<close> is always out of range.
\<close>

lemma url_branch_eq:
  "url_branch ad n ec ret =
     (if sub_type ec = 0x10
      then Inl (if length (slice ad 13 20) = 2 then IndexError else StructError)
      else Inr ret)"
  by (simp add: url_branch_def unpack_url_def index_length)

lemma uid_branch_keeps:
  assumes "uid_branch ad ec ret = Inr ret'"
  shows "ret' ''adstruct_bytes'' = ret ''adstruct_bytes''" and "ret' ''type'' = ret ''type''"
  using assms by (auto simp: uid_branch_def unpack_uid_def split: if_splits)

lemma tlm_branch_keeps:
  assumes "tlm_branch ad ec ret = Inr ret'"
  shows "ret' ''adstruct_bytes'' = ret ''adstruct_bytes''" and "ret' ''type'' = ret ''type''"
  using assms by (auto simp: tlm_branch_def unpack_tlm_def tlm_metrics_def Let_def split: if_splits)

lemma decode_common_keeps:
  assumes "decode_common ad n ec ret = Inr ret'"
  shows "ret' ''adstruct_bytes'' = ret ''adstruct_bytes''"
  using assms
  by (auto simp: decode_common_def url_branch_eq split: if_splits sum.splits
      dest!: uid_branch_keeps(1) tlm_branch_keeps(1))

lemma decode_common_type:
  assumes "decode_common ad n ec ret = Inr ret'"
  shows "ret' ''type'' =
    (if eddystone_uuid ec = 0xFEAA \<and> sd_type ec = 0x16 then Some (PStr ''eddystone'')
     else ret ''type'')"
  using assms
  by (auto simp: decode_common_def url_branch_eq split: if_splits sum.splits
      dest!: uid_branch_keeps(2) tlm_branch_keeps(2))

lemma decode_with_header:
  assumes "5 \<le> unat (ad ! 0) + 1" and "unat (ad ! 0) + 1 \<le> length ad" and "13 \<le> length ad"
  shows "decode_eddystone ad =
     decode_common ad (unat (ad ! 0) + 1)
       \<lparr>adstruct_bytes = unat (ad ! 0), sd_length = unat (ad ! 1),
        sd_flags_type = unat (ad ! 2), sd_flags_data = unat (ad ! 3),
        uuid_list_len = unat (ad ! 4), uuid_dt_val = unat (ad ! 5),
        eddystone_uuid = le_u16 (ad ! 6) (ad ! 7),
        eddy_len = unat (ad ! 8), sd_type = unat (ad ! 9),
        eddy_uuid_2 = le_u16 (ad ! 10) (ad ! 11), sub_type = unat (ad ! 12)\<rparr>
       (unknown (unat (ad ! 0) + 1))"
proof -
  from assms(3) have "ad \<noteq> []" by auto
  with assms show ?thesis
    by (simp add: decode_eddystone_def read_length_eq unpack_common_header)
qed

lemma header_only_run:
  "decode_eddystone eddystone_header_only =
     Inr ((unknown 13)(''type'' \<mapsto> PStr ''eddystone''))"
  by (simp add: eddystone_header_only_def decode_defs)

section \<open>The claims\<close>

subsection \<open>C1: raising on a short buffer\<close>

text \<open>
  Claim C1 says that \<^verbatim>\<open>decode_eddystone\<close> never raises on a buffer of one byte or more.
  The five-byte buffer 04 00 00 00 00 declares five bytes and so passes the length test
  of line 70, but the header format needs 13 bytes: \<^verbatim>\<open>struct.unpack\<close> raises
  \<^verbatim>\<open>struct.error\<close>, which the \<^verbatim>\<open>except TypeError\<close> clause does not catch.
\<close>

theorem short_buffer_raises:
  "decode_eddystone [0x04, 0x00, 0x00, 0x00, 0x00] = Inl StructError"
  by (simp add: decode_defs)

subsection \<open>C2: the consumed length is always reported\<close>

text \<open>
  Claim C2: on a non-empty buffer, every dict that \<^verbatim>\<open>decode_eddystone\<close> returns holds
  under \<^verbatim>\<open>adstruct_bytes\<close> the value of byte 0 plus one, whatever else it holds.
\<close>

theorem adstruct_bytes_reported:
  assumes "ad_struct \<noteq> []" and "decode_eddystone ad_struct = Inr ret"
  shows "ret ''adstruct_bytes'' = Some (PInt (int (unat (ad_struct ! 0)) + 1))"
  using assms
  by (auto simp: decode_eddystone_def read_length_eq unknown_def
      split: if_splits sum.splits dest!: decode_common_keeps)

theorem adstruct_bytes_reported_witness:
  "\<exists>ret. decode_eddystone eddystone_header_only = Inr ret
     \<and> ret ''type'' = Some (PStr ''eddystone'')
     \<and> ret ''adstruct_bytes'' = Some (PInt 13)"
proof -
  have "eddystone_header_only \<noteq> []"
    by (simp add: eddystone_header_only_def)
  from adstruct_bytes_reported [OF this header_only_run] header_only_run show ?thesis
    by (simp add: eddystone_header_only_def unknown_def)
qed

subsection \<open>C3: the length gate\<close>

text \<open>
  Claim C3: on a non-empty buffer whose declared length (byte 0 plus one) is below 5 or
  above the buffer's length, \<^verbatim>\<open>decode_eddystone\<close> returns the dict of line 64, with
  \<^verbatim>\<open>type\<close> None and that length, whatever the other bytes are.
\<close>

theorem length_gate_unknown:
  assumes "ad_struct \<noteq> []"
    and "unat (ad_struct ! 0) + 1 < 5 \<or> unat (ad_struct ! 0) + 1 > length ad_struct"
  shows "decode_eddystone ad_struct = Inr (unknown (unat (ad_struct ! 0) + 1))"
  using assms by (auto simp: decode_eddystone_def read_length_eq)

theorem length_gate_unknown_witness:
  "decode_eddystone [3, 0x16, 0xAA, 0xFE] = Inr (unknown 4)
   \<and> decode_eddystone [0x1D, 0x02, 0x01, 0x06, 0x03, 0x03, 0xAA, 0xFE, 0x15, 0x16, 0xAA, 0xFE, 0x00]
       = Inr (unknown 30)"
  using length_gate_unknown [of "[3, 0x16, 0xAA, 0xFE]"]
    length_gate_unknown [of "[0x1D, 0x02, 0x01, 0x06, 0x03, 0x03, 0xAA, 0xFE, 0x15, 0x16, 0xAA, 0xFE, 0x00]"]
  by simp

subsection \<open>C4: recognition of the Eddystone header\<close>

text \<open>
  Claim C4 places \<^verbatim>\<open>sd_type\<close> at byte 8. In the format of line 74 byte 8 is
  \<^verbatim>\<open>eddy_len\<close> and \<^verbatim>\<open>sd_type\<close> is byte 9: a buffer that passes the length gate, with
  0xFEAA at bytes 6-7 and 0x16 at byte 8 but not at byte 9, is not tagged Eddystone.
\<close>

theorem sd_type_byte_counterexample:
  "5 \<le> unat (sd_type_at_8 ! 0) + 1 \<and> unat (sd_type_at_8 ! 0) + 1 \<le> length sd_type_at_8
   \<and> le_u16 (sd_type_at_8 ! 6) (sd_type_at_8 ! 7) = 0xFEAA \<and> sd_type_at_8 ! 8 = 0x16
   \<and> decode_eddystone sd_type_at_8 = Inr (unknown 13)
   \<and> unknown 13 ''type'' = Some PNone"
  by (simp add: sd_type_at_8_def decode_defs)

text \<open>
  Claim C4, amended: for a buffer that passes the length gate and holds the 13 header
  bytes, a returned dict is tagged Eddystone if and only if the little-endian 16-bit
  value at bytes 6-7 is 0xFEAA and byte 9 is 0x16; when either differs, the call returns
  the dict of line 64, with \<^verbatim>\<open>type\<close> None and the declared length.
\<close>

theorem header_recognition:
  assumes "5 \<le> unat (ad ! 0) + 1" and "unat (ad ! 0) + 1 \<le> length ad" and "13 \<le> length ad"
  shows "(\<not> (le_u16 (ad ! 6) (ad ! 7) = 0xFEAA \<and> unat (ad ! 9) = 0x16) \<longrightarrow>
            decode_eddystone ad = Inr (unknown (unat (ad ! 0) + 1)))
       \<and> (\<forall>ret. decode_eddystone ad = Inr ret \<longrightarrow>
            (ret ''type'' = Some (PStr ''eddystone'') \<longleftrightarrow>
               le_u16 (ad ! 6) (ad ! 7) = 0xFEAA \<and> unat (ad ! 9) = 0x16))"
proof (intro conjI impI allI)
  assume "\<not> (le_u16 (ad ! 6) (ad ! 7) = 0xFEAA \<and> unat (ad ! 9) = 0x16)"
  then show "decode_eddystone ad = Inr (unknown (unat (ad ! 0) + 1))"
    by (auto simp: decode_with_header [OF assms] decode_common_def)
next
  fix ret
  assume "decode_eddystone ad = Inr ret"
  then have "decode_common ad (unat (ad ! 0) + 1)
       \<lparr>adstruct_bytes = unat (ad ! 0), sd_length = unat (ad ! 1),
        sd_flags_type = unat (ad ! 2), sd_flags_data = unat (ad ! 3),
        uuid_list_len = unat (ad ! 4), uuid_dt_val = unat (ad ! 5),
        eddystone_uuid = le_u16 (ad ! 6) (ad ! 7),
        eddy_len = unat (ad ! 8), sd_type = unat (ad ! 9),
        eddy_uuid_2 = le_u16 (ad ! 10) (ad ! 11), sub_type = unat (ad ! 12)\<rparr>
       (unknown (unat (ad ! 0) + 1)) = Inr ret"
    by (simp add: decode_with_header [OF assms])
  from decode_common_type [OF this]
  show "ret ''type'' = Some (PStr ''eddystone'') \<longleftrightarrow>
      le_u16 (ad ! 6) (ad ! 7) = 0xFEAA \<and> unat (ad ! 9) = 0x16"
    by (auto simp: unknown_def)
qed

theorem header_recognition_witness:
  "decode_eddystone sd_type_at_8 = Inr (unknown 13)
   \<and> (\<exists>ret. decode_eddystone eddystone_header_only = Inr ret
         \<and> ret ''type'' = Some (PStr ''eddystone''))"
proof -
  have a: "decode_eddystone sd_type_at_8 = Inr (unknown 13)"
    using header_recognition [of sd_type_at_8]
    by (simp add: sd_type_at_8_def le_u16_def)
  have "\<forall>ret. decode_eddystone eddystone_header_only = Inr ret \<longrightarrow>
      ret ''type'' = Some (PStr ''eddystone'')"
    using header_recognition [of eddystone_header_only]
    by (simp add: eddystone_header_only_def le_u16_def)
  with header_only_run have "\<exists>ret. decode_eddystone eddystone_header_only = Inr ret
      \<and> ret ''type'' = Some (PStr ''eddystone'')"
    by blast
  with a show ?thesis ..
qed

subsection \<open>C5: the UID example\<close>

text \<open>
  Claim C5: a buffer that passes the length gate, with a recognised Eddystone header,
  sub type 0x00 and the payload EC 01 .. 0A 0B .. 10 at bytes 13..29, decodes to the
  UID dict with namespace "0102030405060708090A", instance "0B0C0D0E0F10" and rssi_ref
  -20, and it does so with eddy_len (byte 8) 0x15 and, all other bytes equal, with 0x17.
\<close>

theorem uid_example:
  assumes gate: "5 \<le> unat (ad ! 0) + 1" "unat (ad ! 0) + 1 \<le> length ad"
    and uuid: "le_u16 (ad ! 6) (ad ! 7) = 0xFEAA"
    and sd: "unat (ad ! 9) = 0x16"
    and sub: "unat (ad ! 12) = 0x00"
    and payload: "slice ad 13 30 =
      [0xEC, 0x01, 0x02, 0x03, 0x04, 0x05, 0x06, 0x07, 0x08, 0x09, 0x0A,
       0x0B, 0x0C, 0x0D, 0x0E, 0x0F, 0x10]"
    and el: "el = 0x15 \<or> el = 0x17"
  shows "decode_eddystone (ad[8 := el]) =
     Inr ((unknown (unat (ad ! 0) + 1))
            (''type'' \<mapsto> PStr ''eddystone'',
             ''sub_type'' \<mapsto> PStr ''uid'',
             ''namespace'' \<mapsto> PStr ''0102030405060708090A'',
             ''instance'' \<mapsto> PStr ''0B0C0D0E0F10'',
             ''rssi_ref'' \<mapsto> PInt (- 20)))"
proof -
  let ?ad = "ad[8 := el]"
  have "length (slice ad 13 30) = 17"
    by (simp add: payload)
  then have len: "30 \<le> length ad"
    by (simp add: length_slice)
  have same: "slice ?ad 13 30 = slice ad 13 30"
    by (simp add: slice_def)
  have uid: "unpack_uid (slice ad 13 30) =
      Inr (- 20, [0x01, 0x02, 0x03, 0x04, 0x05, 0x06, 0x07, 0x08, 0x09, 0x0A],
           [0x0B, 0x0C, 0x0D, 0x0E, 0x0F, 0x10])"
    unfolding payload by (simp add: unpack_uid_def slice_def)
  have el': "unat el = 0x15 \<or> unat el = 0x17"
    using el by auto
  have "decode_eddystone ?ad =
     decode_common ?ad (unat (?ad ! 0) + 1)
       \<lparr>adstruct_bytes = unat (?ad ! 0), sd_length = unat (?ad ! 1),
        sd_flags_type = unat (?ad ! 2), sd_flags_data = unat (?ad ! 3),
        uuid_list_len = unat (?ad ! 4), uuid_dt_val = unat (?ad ! 5),
        eddystone_uuid = le_u16 (?ad ! 6) (?ad ! 7),
        eddy_len = unat (?ad ! 8), sd_type = unat (?ad ! 9),
        eddy_uuid_2 = le_u16 (?ad ! 10) (?ad ! 11), sub_type = unat (?ad ! 12)\<rparr>
       (unknown (unat (?ad ! 0) + 1))"
    using gate len by (intro decode_with_header) simp_all
  also have "\<dots> = Inr ((unknown (unat (ad ! 0) + 1))
            (''type'' \<mapsto> PStr ''eddystone'',
             ''sub_type'' \<mapsto> PStr ''uid'',
             ''namespace'' \<mapsto>
               PStr (hex_join [0x01, 0x02, 0x03, 0x04, 0x05, 0x06, 0x07, 0x08, 0x09, 0x0A]),
             ''instance'' \<mapsto> PStr (hex_join [0x0B, 0x0C, 0x0D, 0x0E, 0x0F, 0x10]),
             ''rssi_ref'' \<mapsto> PInt (- 20)))"
    using uuid sd sub el' len
    by (auto simp: decode_common_def uid_branch_def same uid url_branch_eq tlm_branch_def)
  finally show ?thesis
    by (simp only: hex_join_example)
qed

theorem uid_example_witness:
  "decode_eddystone (uid_frame[8 := 0x15]) =
     Inr [''adstruct_bytes'' \<mapsto> PInt 30, ''type'' \<mapsto> PStr ''eddystone'',
          ''sub_type'' \<mapsto> PStr ''uid'', ''namespace'' \<mapsto> PStr ''0102030405060708090A'',
          ''instance'' \<mapsto> PStr ''0B0C0D0E0F10'', ''rssi_ref'' \<mapsto> PInt (- 20)]
   \<and> decode_eddystone (uid_frame[8 := 0x17]) = decode_eddystone (uid_frame[8 := 0x15])"
  using uid_example [of uid_frame "0x15"] uid_example [of uid_frame "0x17"]
  by (simp add: uid_frame_def le_u16_def slice_def unknown_def)

subsection \<open>C6: telemetry frames\<close>

text \<open>
  Claim C6: for a buffer with a recognised Eddystone header and sub type 0x20, a returned
  dict has sub type \<^verbatim>\<open>tlm\<close> only when eddy_len (byte 8) is 0x11; it then reports
  tlm_version (byte 13), and holds vbatt = raw / 1000, temp = raw / 256 (raw a signed
  big-endian 16-bit value), adv_cnt = raw and sec_cnt = raw / 10 exactly when
  tlm_version is 0, and none of the four otherwise. The call returns whenever eddy_len
  is not 0x11 or the buffer holds the 26 bytes of the frame.
\<close>

theorem tlm_frames:
  assumes gate: "5 \<le> unat (ad ! 0) + 1" "unat (ad ! 0) + 1 \<le> length ad"
    and len: "13 \<le> length ad"
    and uuid: "le_u16 (ad ! 6) (ad ! 7) = 0xFEAA"
    and sd: "unat (ad ! 9) = 0x16"
    and sub: "unat (ad ! 12) = 0x20"
  shows "(\<forall>ret. decode_eddystone ad = Inr ret \<longrightarrow>
            (ret ''sub_type'' = Some (PStr ''tlm'') \<longleftrightarrow> unat (ad ! 8) = 0x11) \<and>
            (unat (ad ! 8) = 0x11 \<longrightarrow>
               ret ''tlm_version'' = Some (PInt (int (unat (ad ! 13)))) \<and>
               (if unat (ad ! 13) = 0 then
                  ret ''vbatt'' = Some (PFloat (of_nat (be_u16 (ad ! 14) (ad ! 15)) / 1000)) \<and>
                  ret ''temp'' = Some (PFloat (of_int (be_i16 (ad ! 16) (ad ! 17)) / 256)) \<and>
                  ret ''adv_cnt'' =
                    Some (PInt (int (be_u32 (ad ! 18) (ad ! 19) (ad ! 20) (ad ! 21)))) \<and>
                  ret ''sec_cnt'' =
                    Some (PFloat (of_nat (be_u32 (ad ! 22) (ad ! 23) (ad ! 24) (ad ! 25)) / 10))
                else ret ''vbatt'' = None \<and> ret ''temp'' = None \<and>
                  ret ''adv_cnt'' = None \<and> ret ''sec_cnt'' = None)))
       \<and> ((unat (ad ! 8) = 0x11 \<longrightarrow> 26 \<le> length ad) \<longrightarrow>
            (\<exists>ret. decode_eddystone ad = Inr ret))"
proof -
  let ?n = "unat (ad ! 0) + 1"
  let ?base = "(unknown ?n)(''type'' \<mapsto> PStr ''eddystone'')"
  let ?ec = "\<lparr>adstruct_bytes = unat (ad ! 0), sd_length = unat (ad ! 1),
        sd_flags_type = unat (ad ! 2), sd_flags_data = unat (ad ! 3),
        uuid_list_len = unat (ad ! 4), uuid_dt_val = unat (ad ! 5),
        eddystone_uuid = le_u16 (ad ! 6) (ad ! 7),
        eddy_len = unat (ad ! 8), sd_type = unat (ad ! 9),
        eddy_uuid_2 = le_u16 (ad ! 10) (ad ! 11), sub_type = unat (ad ! 12)\<rparr>"
  have run: "decode_eddystone ad = tlm_branch ad ?ec ?base"
    using uuid sd sub
    by (simp add: decode_with_header [OF gate len] decode_common_def uid_branch_def
        url_branch_eq)
  show ?thesis
  proof (cases "unat (ad ! 8) = 0x11")
    case False
    then have "decode_eddystone ad = Inr ?base"
      by (simp add: run tlm_branch_def)
    with False show ?thesis
      by (simp add: unknown_def)
  next
    case True
    show ?thesis
    proof (cases "26 \<le> length ad")
      case short: False
      then have "length (slice ad 13 26) \<noteq> 13"
        by (simp add: length_slice)
      then have "decode_eddystone ad = Inl StructError"
        using True sub by (simp add: run tlm_branch_def unpack_tlm_def)
      with True short show ?thesis by simp
    next
      case long: True
      then have "unpack_tlm (slice ad 13 26) =
          Inr (unat (ad ! 13), be_u16 (ad ! 14) (ad ! 15), be_i16 (ad ! 16) (ad ! 17),
               be_u32 (ad ! 18) (ad ! 19) (ad ! 20) (ad ! 21),
               be_u32 (ad ! 22) (ad ! 23) (ad ! 24) (ad ! 25))"
        by (simp add: unpack_tlm_def length_slice nth_slice)
      with True sub show ?thesis
        by (simp add: run tlm_branch_def tlm_metrics_def Let_def unknown_def
            unsigned_eq_0_iff)
    qed
  qed
qed

theorem tlm_frames_witness:
  "(\<exists>ret. decode_eddystone (tlm_frame 0) = Inr ret
      \<and> ret ''sub_type'' = Some (PStr ''tlm'') \<and> ret ''tlm_version'' = Some (PInt 0)
      \<and> ret ''vbatt'' = Some (PFloat (33 / 10)) \<and> ret ''temp'' = Some (PFloat 8)
      \<and> ret ''adv_cnt'' = Some (PInt 10) \<and> ret ''sec_cnt'' = Some (PFloat 10))
   \<and> (\<exists>ret. decode_eddystone (tlm_frame 1) = Inr ret
      \<and> ret ''sub_type'' = Some (PStr ''tlm'') \<and> ret ''tlm_version'' = Some (PInt 1)
      \<and> ret ''vbatt'' = None \<and> ret ''temp'' = None
      \<and> ret ''adv_cnt'' = None \<and> ret ''sec_cnt'' = None)"
proof -
  have v0: "\<exists>ret. decode_eddystone (tlm_frame 0) = Inr ret
      \<and> ret ''sub_type'' = Some (PStr ''tlm'') \<and> ret ''tlm_version'' = Some (PInt 0)
      \<and> ret ''vbatt'' = Some (PFloat (33 / 10)) \<and> ret ''temp'' = Some (PFloat 8)
      \<and> ret ''adv_cnt'' = Some (PInt 10) \<and> ret ''sec_cnt'' = Some (PFloat 10)"
    using tlm_frames [of "tlm_frame 0"]
    by (simp add: tlm_frame_def le_u16_def be_u16_def be_i16_def be_u32_def) blast
  have v1: "\<exists>ret. decode_eddystone (tlm_frame 1) = Inr ret
      \<and> ret ''sub_type'' = Some (PStr ''tlm'') \<and> ret ''tlm_version'' = Some (PInt 1)
      \<and> ret ''vbatt'' = None \<and> ret ''temp'' = None
      \<and> ret ''adv_cnt'' = None \<and> ret ''sec_cnt'' = None"
    using tlm_frames [of "tlm_frame 1"]
    by (simp add: tlm_frame_def le_u16_def) blast
  from v0 v1 show ?thesis ..
qed

subsection \<open>C7: rssi_fudge\<close>

text \<open>
  Claim C7 says that a URL frame's \<^verbatim>\<open>rssi_fudge\<close> is the last byte of the buffer, the
  one at index \<^verbatim>\<open>len(ad_struct) - 1\<close>. Line 135 reads index \<^verbatim>\<open>len(ad_struct)\<close>, one past
  the end. On the 15-byte URL frame below the two-byte unpack succeeds and the last byte
  is 0x02, yet the call ends in IndexError and returns no dict.
\<close>

theorem rssi_fudge_raises:
  "unpack_url (slice url_frame_fudge 13 20) = Inr (- 20, 2)
   \<and> index url_frame_fudge (length url_frame_fudge - 1) = Inr 0x02
   \<and> index url_frame_fudge (length url_frame_fudge) = Inl IndexError
   \<and> decode_eddystone url_frame_fudge = Inl IndexError"
  by (simp add: url_frame_fudge_def decode_defs)

subsection \<open>C8: the URL example\<close>

text \<open>
  Claim C8 says that a URL frame with scheme 0x00 carrying "example" and the expansion
  code 0x00 decodes to "http://www.example.com/". On that frame the slice
  \<^verbatim>\<open>ad_struct[13:20]\<close> has seven bytes, the two-byte unpack of line 132 raises
  \<^verbatim>\<open>struct.error\<close>, and no dict is returned.
\<close>

theorem url_example_raises:
  "length (slice url_frame_example_com 13 20) = 7
   \<and> unpack_url (slice url_frame_example_com 13 20) = Inl StructError
   \<and> decode_eddystone url_frame_example_com = Inl StructError"
  by (simp add: url_frame_example_com_def decode_defs)

subsection \<open>C9: the two tests of the URL scan\<close>

text \<open>
  Claim C9 says that some byte value satisfies both the expansion-code test (below 14)
  and the printable test (above 0x20 and below 0x7F), so that one byte appends twice.
  No value does.
\<close>

theorem checks_both_fire_counterexample:
  "\<not> (\<exists>c_code. is_expansion_code c_code \<and> is_graphic c_code)"
  by (simp add: is_expansion_code_def is_graphic_def)

text \<open>
  Claim C9, amended: the loop body runs the expansion-code test and the printable test
  as two separate \<^verbatim>\<open>if\<close> statements on every character code, but no code passes both;
  so a code appends an expansion token (followed by "/" below 7), or the character
  itself, or nothing, exactly as an if / else-if chain would.
\<close>

theorem url_step_checks_disjoint:
  "\<not> (is_expansion_code c_code \<and> is_graphic c_code)
   \<and> url_step c_code url =
       (if c_code < 14 then
          url @ expansions ! (if c_code < 7 then c_code else c_code - 7)
              @ (if c_code < 7 then ''/'' else [])
        else if c_code > 0x20 \<and> c_code < 0x7F then url @ [char_of c_code]
        else url)"
  by (simp add: url_step_def url_literal_def url_expand_def is_expansion_code_def
      is_graphic_def Let_def)

subsection \<open>C10: the URL branch always raises\<close>

text \<open>
  Claim C10: every buffer that reaches the URL branch (length gate passed, 0xFEAA at
  bytes 6-7, sd_type 0x16, sub type 0x10) makes \<^verbatim>\<open>decode_eddystone\<close> raise:
  \<^verbatim>\<open>struct.error\<close> from the two-byte unpack of \<^verbatim>\<open>ad_struct[13:20]\<close> unless the buffer has
  exactly 15 bytes, and IndexError from \<^verbatim>\<open>ad_struct[len(ad_struct)]\<close> when it has. Hence
  no returned dict has sub type \<^verbatim>\<open>url\<close>.
\<close>

theorem url_branch_raises:
  "(5 \<le> unat (ad ! 0) + 1 \<and> unat (ad ! 0) + 1 \<le> length ad \<and> 13 \<le> length ad
      \<and> le_u16 (ad ! 6) (ad ! 7) = 0xFEAA \<and> unat (ad ! 9) = 0x16 \<and> unat (ad ! 12) = 0x10
     \<longrightarrow> decode_eddystone ad = Inl (if length ad = 15 then IndexError else StructError))
   \<and> (\<forall>ret. decode_eddystone ad = Inr ret \<longrightarrow> ret ''sub_type'' \<noteq> Some (PStr ''url''))"
proof (intro conjI impI allI)
  assume h: "5 \<le> unat (ad ! 0) + 1 \<and> unat (ad ! 0) + 1 \<le> length ad \<and> 13 \<le> length ad
      \<and> le_u16 (ad ! 6) (ad ! 7) = 0xFEAA \<and> unat (ad ! 9) = 0x16 \<and> unat (ad ! 12) = 0x10"
  then have "decode_eddystone ad =
      Inl (if length (slice ad 13 20) = 2 then IndexError else StructError)"
    by (simp add: decode_with_header decode_common_def uid_branch_def url_branch_eq)
  moreover from h have "length (slice ad 13 20) = 2 \<longleftrightarrow> length ad = 15"
    by (auto simp: length_slice)
  ultimately show "decode_eddystone ad = Inl (if length ad = 15 then IndexError else StructError)"
    by simp
next
  fix ret
  assume "decode_eddystone ad = Inr ret"
  then show "ret ''sub_type'' \<noteq> Some (PStr ''url'')"
    by (auto simp: decode_eddystone_def read_length_eq unknown_def decode_common_def
        url_branch_eq uid_branch_def tlm_branch_def tlm_metrics_def Let_def
        unpack_uid_def unpack_tlm_def
        split: if_splits sum.splits)
qed

theorem url_branch_raises_witness:
  "decode_eddystone url_frame_15 = Inl IndexError
   \<and> decode_eddystone url_frame_example = Inl StructError"
  using url_branch_raises [of url_frame_15] url_branch_raises [of url_frame_example]
  by (simp add: url_frame_15_def url_frame_example_def le_u16_def)

end
